theory Spec2Isabelle
  imports Main
begin

section \<open>OptySys front end: login form, token normalisation, skill options\<close>

text \<open>
  The development follows the TypeScript sources: the login page component
  (\<^verbatim>\<open>onChange\<close>, \<^verbatim>\<open>onSubmit\<close>, \<^verbatim>\<open>setShowPassword\<close>), the helpers
  \<^verbatim>\<open>normalizeAccessToken\<close>, \<^verbatim>\<open>capitalize\<close>, \<^verbatim>\<open>getSkillsList\<close>, and the store
  interface \<^verbatim>\<open>IUserStore\<close>.

  A JavaScript string is a sequence of code units; it is modelled as a \<^typ>\<open>string\<close>, one
  \<^typ>\<open>char\<close> per code unit. The functions below only filter, index and cut such a
  sequence, so nothing depends on the width of a unit.
\<close>

subsection \<open>String helpers of the runtime\<close>

text \<open>The double quote, the only character the pattern \<^verbatim>\<open>/"/g\<close> matches.\<close>

definition dquote :: char where
  "dquote = CHR 0x22"

text \<open>
  \<^verbatim>\<open>str.replace(/c/g, rep)\<close> for a pattern that is one literal character: every
  occurrence of the character, left to right, is replaced by \<open>rep\<close>.
\<close>

fun replace_global :: "char \<Rightarrow> string \<Rightarrow> string \<Rightarrow> string" where
  "replace_global pat rep [] = []"
| "replace_global pat rep (c # cs) =
     (if c = pat then rep @ replace_global pat rep cs else c # replace_global pat rep cs)"

text \<open>
  \<^verbatim>\<open>str.charAt(i)\<close>: the one-unit string at index \<open>i\<close>, the empty string when \<open>i\<close> is
  out of range (it never throws).
\<close>

definition charAt :: "nat \<Rightarrow> string \<Rightarrow> string" where
  "charAt i str = (if i < length str then [str ! i] else [])"

text \<open>
  \<^verbatim>\<open>str.slice(start)\<close> for a start that is not negative: the units from \<open>start\<close> to the
  end, the empty string when \<open>start\<close> is beyond the end.
\<close>

definition slice :: "nat \<Rightarrow> string \<Rightarrow> string" where
  "slice start str = drop start str"

text \<open>
  \<^verbatim>\<open>str.toUpperCase()\<close> belongs to the runtime and follows the Unicode tables: one code
  unit may become several (the sharp s becomes two letters). The tables are a parameter
  \<open>upper\<close>, the upper-casing of a single unit; the source applies the function to a
  string of at most one unit, where the result is exactly that of \<open>upper\<close>, and to the
  empty string, which stays empty.
\<close>

definition toUpperCase :: "(char \<Rightarrow> string) \<Rightarrow> string \<Rightarrow> string" where
  "toUpperCase upper str = concat (map upper str)"

text \<open>The ASCII part of the tables, to evaluate the functions on concrete skills.\<close>

definition asciiUpper :: "char \<Rightarrow> string" where
  "asciiUpper c =
     (let n = (of_char c :: nat) in if 97 \<le> n \<and> n \<le> 122 then [char_of (n - 32)] else [c])"

subsection \<open>Token normalisation and skill options\<close>

text \<open>
  \<^verbatim>\<open>
  export function normalizeAccessToken(token: string): string {
    return token.replace(/"/g, "");
  }
  function capitalize(str: string): string {
    return str.charAt(0).toUpperCase() + str.slice(1);
  }
  \<close>
\<close>

definition normalizeAccessToken :: "string \<Rightarrow> string" where
  "normalizeAccessToken token = replace_global dquote [] token"

definition capitalize :: "(char \<Rightarrow> string) \<Rightarrow> string \<Rightarrow> string" where
  "capitalize upper str = toUpperCase upper (charAt 0 str) @ slice 1 str"

record IOption =
  "value" :: string
  label :: string

text \<open>
  \<^verbatim>\<open>
  export async function getSkillsList(): Promise<Array<IOption>> {
    const data: Array<string> = await getCSVData("lib/constants/technologies.csv");
    const skills: Array<IOption> = data.map((skill: string) => {
      return { value: skill, label: capitalize(skill) };
    });
    return skills;
  }
  \<close>
  \<^verbatim>\<open>getCSVData\<close> is the CSV lookup collaborator: a parameter that, for a path, either
  rejects (\<open>Inl\<close>) or resolves with the list of raw skills (\<open>Inr\<close>). A rejection
  passes through the \<^verbatim>\<open>await\<close> unchanged.
\<close>

definition getSkillsList ::
  "(char \<Rightarrow> string) \<Rightarrow> (string \<Rightarrow> 'e + string list) \<Rightarrow> 'e + IOption list" where
  "getSkillsList upper getCSVData =
     (case getCSVData ''lib/constants/technologies.csv'' of
        Inl e \<Rightarrow> Inl e
      | Inr data \<Rightarrow>
          Inr (map (\<lambda>skill. \<lparr>value = skill, label = capitalize upper skill\<rparr>) data))"

text \<open>
  The specification's wording of the normalisation, for comparison with the source:
  "any wrapping quote characters stripped", that is, the quotes at the two ends of the
  token and nothing in between.
\<close>

definition spec_stripWrappingQuotes :: "string \<Rightarrow> string" where
  "spec_stripWrappingQuotes token =
     rev (dropWhile (\<lambda>c. c = dquote) (rev (dropWhile (\<lambda>c. c = dquote) token)))"

subsection \<open>Session store\<close>

text \<open>
  Modelled from the spec: the implementation of the store behind the interface
  \<^verbatim>\<open>IUserStore\<close> (\<^verbatim>\<open>setUser\<close>, \<^verbatim>\<open>setAccessToken\<close>, \<^verbatim>\<open>getActivationStatus\<close>,
  \<^verbatim>\<open>logoutUser\<close>) is not among the sources; only the interface is. The store holds
  a user and an access token, each absent when logged out; the token is normalised before
  it is stored; the activation status is the user's flag when a user is present and false
  otherwise; logging out clears both fields.
\<close>

record IUser =
  userId :: string
  userEmail :: string
  isActivated :: bool

text \<open>
  Modelled from the spec: the two fields of the interface, each absent when logged out.
\<close>

record IUserStore =
  user :: "IUser option"
  accessToken :: "string option"

text \<open>Modelled from the spec: the store is created empty at process start.\<close>

definition emptyStore :: IUserStore where
  "emptyStore = \<lparr>user = None, accessToken = None\<rparr>"

text \<open>Modelled from the spec: \<open>setUser\<close> replaces the stored identity wholesale.\<close>

definition setUser :: "IUser \<Rightarrow> IUserStore \<Rightarrow> IUserStore" where
  "setUser u st = st\<lparr>user := Some u\<rparr>"

text \<open>Modelled from the spec: \<open>setAccessToken\<close> normalises the token, then stores it.\<close>

definition setAccessToken :: "string \<Rightarrow> IUserStore \<Rightarrow> IUserStore" where
  "setAccessToken token st = st\<lparr>accessToken := Some (normalizeAccessToken token)\<rparr>"

text \<open>
  Modelled from the spec: \<open>getActivationStatus\<close> is the user's flag when a user is
  present, false when none is set.
\<close>

definition getActivationStatus :: "IUserStore \<Rightarrow> bool" where
  "getActivationStatus st = (case user st of None \<Rightarrow> False | Some u \<Rightarrow> isActivated u)"

text \<open>Modelled from the spec: \<open>logoutUser\<close> clears the user and the token together.\<close>

definition logoutUser :: "IUserStore \<Rightarrow> IUserStore" where
  "logoutUser st = st\<lparr>user := None, accessToken := None\<rparr>"

subsection \<open>Login validation\<close>

text \<open>
  Modelled from the spec: \<^verbatim>\<open>getLoginFormErrors\<close> of \<^verbatim>\<open>@/utils/errors\<close> is not among
  the sources; only its two call sites are. The rules of the login form, checked in order:
  email missing or empty; email failing the shape check (local-part\<open>@\<close>domain with at
  least one dot in the domain); password missing or empty; password shorter than 6. A
  field is \<open>None\<close> when it is missing (\<^verbatim>\<open>undefined\<close>).
\<close>

definition emailShape :: "string \<Rightarrow> bool" where
  "emailShape s =
     (let localPart = takeWhile (\<lambda>c. c \<noteq> CHR ''@'') s;
          rest = dropWhile (\<lambda>c. c \<noteq> CHR ''@'') s
      in localPart \<noteq> [] \<and> rest \<noteq> [] \<and> CHR ''.'' \<in> set (tl rest))"

text \<open>
  Modelled from the spec: the four rules of \<^verbatim>\<open>getLoginFormErrors\<close> with their messages,
  the first violated rule giving the result, null (\<open>None\<close>) when all pass.
\<close>

definition getLoginFormErrors :: "string option \<Rightarrow> string option \<Rightarrow> string option" where
  "getLoginFormErrors email password =
     (case email of
        None \<Rightarrow> Some ''Email is required.''
      | Some e \<Rightarrow>
          if e = [] then Some ''Email is required.''
          else if \<not> emailShape e then Some ''Enter a valid email address.''
          else (case password of
                  None \<Rightarrow> Some ''Password is required.''
                | Some p \<Rightarrow>
                    if p = [] then Some ''Password is required.''
                    else if length p < 6 then Some ''Password must be at least 6 characters.''
                    else None))"

subsection \<open>The login page\<close>

text \<open>
  The form data is a JavaScript object: a map from field names to values, a name that was
  never written reading \<^verbatim>\<open>undefined\<close> (\<open>None\<close>). The inputs write strings, the
  visibility toggle writes a boolean.
\<close>

datatype jsval = JString string | JBool bool

text \<open>Truthiness, as \<^verbatim>\<open>!x\<close> and \<^verbatim>\<open>if (x)\<close> read a value.\<close>

fun truthy :: "jsval option \<Rightarrow> bool" where
  "truthy None = False"
| "truthy (Some (JString s)) = (s \<noteq> [])"
| "truthy (Some (JBool b)) = b"

fun truthyMessage :: "string option \<Rightarrow> bool" where
  "truthyMessage None = False"
| "truthyMessage (Some m) = (m \<noteq> [])"

text \<open>
  The component's state: \<^verbatim>\<open>useState<LoginFormData>({})\<close> and
  \<^verbatim>\<open>useState<string | null>(null)\<close>.
\<close>

record Home =
  formData :: "string \<rightharpoonup> jsval"
  error :: "string option"

definition initialHome :: Home where
  "initialHome = \<lparr>formData = Map.empty, error = None\<rparr>"

text \<open>
  \<^verbatim>\<open>
  function onChange(e) {
    const name = e.target.name;  const value = e.target.value;
    setFormData({ ...formData, [name]: value });
    let email; let password;
    switch (name) {
      case "email":    email = value;          password = formData.password; break;
      case "password": email = formData.email; password = value;             break;
      default:         email = formData.email; password = formData.password;
    }
    const errorMessage = getLoginFormErrors(email, password);
    setError(errorMessage);
  }
  \<close>
  The validator is the parameter \<open>validate\<close>.
\<close>

definition onChange ::
  "(jsval option \<Rightarrow> jsval option \<Rightarrow> string option) \<Rightarrow> string \<Rightarrow> string \<Rightarrow> Home \<Rightarrow> Home" where
  "onChange validate name val h =
     (let email = (if name = ''email'' then Some (JString val) else formData h ''email'');
          password = (if name = ''email'' then formData h ''password''
                      else if name = ''password'' then Some (JString val)
                      else formData h ''password'')
      in \<lparr>formData = (formData h)(name \<mapsto> JString val), error = validate email password\<rparr>)"

text \<open>
  \<^verbatim>\<open>
  function setShowPassword(name: string) {
    setFormData({ ...formData, [name]: !formData[name] });
  }
  \<close>
\<close>

definition setShowPassword :: "string \<Rightarrow> Home \<Rightarrow> Home" where
  "setShowPassword name h =
     h\<lparr>formData := (formData h)(name \<mapsto> JBool (\<not> truthy (formData h name)))\<rparr>"

text \<open>
  What the page does outside its own state is recorded in the world around it: the
  notifications raised through \<^verbatim>\<open>toast\<close>, the paths pushed to the router, the payloads
  handed to the submission collaborator \<^verbatim>\<open>login\<close>, and the session store, which the
  page can reach as an ambient singleton and whose representation is left open.
\<close>

datatype toast = ToastError string | ToastSuccess string

record 's World =
  home :: Home
  toasts :: "toast list"
  routes :: "string list"
  requests :: "(string \<rightharpoonup> jsval) list"
  store :: 's

text \<open>
  \<^verbatim>\<open>
  async function onSubmit(e) {
    e.preventDefault();
    const errorMessage = getLoginFormErrors(formData.email, formData.password);
    if (errorMessage) { toast.error(errorMessage); return; }
    try {
      await login(formData);
      toast.success("Successfully logged in.");
      router.push("/dashboard");
    } catch (err) {
      toast.error("Invalid credentials.");
    }
  }
  \<close>
  The collaborator is the parameter \<open>login\<close>: for a payload it rejects with an error
  (\<open>Inl\<close>) or resolves (\<open>Inr\<close>).
\<close>

definition onSubmit ::
  "(jsval option \<Rightarrow> jsval option \<Rightarrow> string option) \<Rightarrow> ((string \<rightharpoonup> jsval) \<Rightarrow> 'e + 'r) \<Rightarrow>
   's World \<Rightarrow> 's World" where
  "onSubmit validate login w =
     (let fd = formData (home w);
          errorMessage = validate (fd ''email'') (fd ''password'')
      in if truthyMessage errorMessage
         then w\<lparr>toasts := toasts w @ [ToastError (the errorMessage)]\<rparr>
         else (case login fd of
                 Inr _ \<Rightarrow>
                   w\<lparr>requests := requests w @ [fd],
                     toasts := toasts w @ [ToastSuccess ''Successfully logged in.''],
                     routes := routes w @ [''/dashboard'']\<rparr>
               | Inl err \<Rightarrow>
                   w\<lparr>requests := requests w @ [fd],
                     toasts := toasts w @ [ToastError ''Invalid credentials.'']\<rparr>))"

text \<open>
  The events of the form: a change of an input, and a click on the visibility icon, which
  calls \<^verbatim>\<open>setShowPassword("showPassword")\<close>.
\<close>

datatype event = Change string string | ToggleVisibility

fun handle :: "(jsval option \<Rightarrow> jsval option \<Rightarrow> string option) \<Rightarrow> Home \<Rightarrow> event \<Rightarrow> Home" where
  "handle validate h (Change name val) = onChange validate name val h"
| "handle validate h ToggleVisibility = setShowPassword ''showPassword'' h"

definition run :: "(jsval option \<Rightarrow> jsval option \<Rightarrow> string option) \<Rightarrow> Home \<Rightarrow> event list \<Rightarrow> Home" where
  "run validate h evs = foldl (handle validate) h evs"

text \<open>
  Modelled from the spec: the validator the page imports is \<^verbatim>\<open>getLoginFormErrors\<close>,
  which is not among the sources. Its parameters are declared as strings; a field that
  holds no string is read as missing.
\<close>

fun textOf :: "jsval option \<Rightarrow> string option" where
  "textOf (Some (JString s)) = Some s"
| "textOf _ = None"

definition loginValidator :: "jsval option \<Rightarrow> jsval option \<Rightarrow> string option" where
  "loginValidator email password = getLoginFormErrors (textOf email) (textOf password)"

section \<open>Properties\<close>

subsection \<open>Token normalisation\<close>

lemma replace_global_erase: "replace_global pat [] str = filter (\<lambda>c. c \<noteq> pat) str"
  by (induction str) simp_all

lemma normalizeAccessToken_filter:
  "normalizeAccessToken token = filter (\<lambda>c. c \<noteq> dquote) token"
  by (simp add: normalizeAccessToken_def replace_global_erase)

text \<open>
  C5, as the specification words it: the normalisation strips exactly the wrapping quote
  characters and leaves every other character of the token unchanged. The source removes
  a quote wherever it stands: in the token \<^verbatim>\<open>a"b\<close> no quote wraps anything, the
  specification's wording leaves the token as it is, and the source returns \<^verbatim>\<open>ab\<close>.
\<close>

theorem normalizeAccessToken_interior_quote:
  "normalizeAccessToken [CHR ''a'', CHR 0x22, CHR ''b''] = [CHR ''a'', CHR ''b'']
   \<and> spec_stripWrappingQuotes [CHR ''a'', CHR 0x22, CHR ''b''] = [CHR ''a'', CHR 0x22, CHR ''b'']
   \<and> normalizeAccessToken [CHR ''a'', CHR 0x22, CHR ''b'']
       \<noteq> spec_stripWrappingQuotes [CHR ''a'', CHR 0x22, CHR ''b'']"
  by (simp add: normalizeAccessToken_def spec_stripWrappingQuotes_def dquote_def)

text \<open>
  C5, amended: for every token, the normalisation removes every double-quote character
  of the token, wherever it occurs, and leaves all other characters unchanged and in
  their order; the result holds no double quote; and the credential the store holds after
  \<open>setAccessToken\<close> is this normalised string.
\<close>

theorem normalizeAccessToken_removes_all_quotes:
  "normalizeAccessToken t = filter (\<lambda>c. c \<noteq> dquote) t
   \<and> dquote \<notin> set (normalizeAccessToken t)
   \<and> accessToken (setAccessToken t st) = Some (normalizeAccessToken t)"
  by (simp add: normalizeAccessToken_filter setAccessToken_def)

text \<open>The token \<^verbatim>\<open>"abc123"\<close> of the specification, stored in the empty store.\<close>

theorem normalizeAccessToken_removes_all_quotes_witness:
  "normalizeAccessToken (CHR 0x22 # ''abc123'' @ [CHR 0x22]) = ''abc123''
   \<and> accessToken (setAccessToken (CHR 0x22 # ''abc123'' @ [CHR 0x22]) emptyStore) = Some ''abc123''"
  using normalizeAccessToken_removes_all_quotes [of "CHR 0x22 # ''abc123'' @ [CHR 0x22]" emptyStore]
  by (simp add: dquote_def)

text \<open>
  C6: the normalisation is idempotent: normalising a normalised token changes nothing.
\<close>

theorem normalizeAccessToken_idempotent:
  "normalizeAccessToken (normalizeAccessToken t) = normalizeAccessToken t"
  by (simp add: normalizeAccessToken_filter)

subsection \<open>Skill options\<close>

lemma capitalize_cases:
  "capitalize upper str = (case str of [] \<Rightarrow> [] | c # rest \<Rightarrow> upper c @ rest)"
  by (cases str) (simp_all add: capitalize_def charAt_def slice_def toUpperCase_def)

text \<open>
  C7: when the CSV collaborator resolves with a list of raw skills, \<open>getSkillsList\<close>
  resolves with one option per raw skill, in the same order; the value of each option is
  the raw skill unchanged, and its label is the raw skill with the first character
  upper-cased and the remainder unchanged.
\<close>

theorem getSkillsList_options:
  assumes "getCSVData ''lib/constants/technologies.csv'' = Inr data"
  shows "\<exists>skills. getSkillsList upper getCSVData = Inr skills
           \<and> length skills = length data
           \<and> (\<forall>i < length data.
                 value (skills ! i) = data ! i
               \<and> label (skills ! i) = (case data ! i of [] \<Rightarrow> [] | c # rest \<Rightarrow> upper c @ rest))"
  using assms by (simp add: getSkillsList_def capitalize_cases)

text \<open>Two skills, with the ASCII upper-casing.\<close>

theorem getSkillsList_options_witness:
  "\<exists>skills. getSkillsList asciiUpper (\<lambda>path. Inr [''react'', ''c++''] :: unit + string list) = Inr skills
     \<and> length skills = 2
     \<and> value (skills ! 0) = ''react'' \<and> label (skills ! 0) = ''React''
     \<and> value (skills ! 1) = ''c++'' \<and> label (skills ! 1) = ''C++''"
proof -
  have up: "asciiUpper CHR ''r'' = ''R''" "asciiUpper CHR ''c'' = ''C''"
    by code_simp+
  obtain skills where
    s1: "getSkillsList asciiUpper (\<lambda>path. Inr [''react'', ''c++''] :: unit + string list) = Inr skills" and
    s2: "length skills = length [''react'', ''c++'']" and
    s3: "\<forall>i < length [''react'', ''c++''].
           value (skills ! i) = [''react'', ''c++''] ! i
         \<and> label (skills ! i)
             = (case [''react'', ''c++''] ! i of [] \<Rightarrow> [] | c # rest \<Rightarrow> asciiUpper c @ rest)"
    using getSkillsList_options
      [of "\<lambda>path. Inr [''react'', ''c++''] :: unit + string list" "[''react'', ''c++'']" asciiUpper,
       OF refl]
    by blast
  from s3 [rule_format, of 0] have a: "value (skills ! 0) = ''react''" "label (skills ! 0) = ''React''"
    by (simp_all add: up)
  from s3 [rule_format, of 1] have b: "value (skills ! 1) = ''c++''" "label (skills ! 1) = ''C++''"
    by (simp_all add: up)
  from s1 s2 a b show ?thesis by (intro exI [of _ skills]) simp
qed

text \<open>
  C10: \<open>capitalize\<close> is total: on the empty string it returns the empty string (no step
  of it can throw: \<open>charAt\<close> and \<open>slice\<close> answer the empty string out of range), so
  \<open>getSkillsList\<close> resolves on every list the CSV collaborator resolves with, with one
  option per entry, also when entries are empty, as in the list of an empty skill,
  \<^verbatim>\<open>go\<close> and an empty skill.
\<close>

theorem capitalize_total:
  "capitalize upper [] = []
   \<and> (\<exists>skills. getSkillsList upper (\<lambda>path. Inr data) = Inr skills \<and> length skills = length data)
   \<and> getSkillsList upper (\<lambda>path. Inr [[], ''go'', []])
       = Inr [\<lparr>value = [], label = []\<rparr>, \<lparr>value = ''go'', label = upper CHR ''g'' @ ''o''\<rparr>,
              \<lparr>value = [], label = []\<rparr>]"
  by (simp add: getSkillsList_def capitalize_cases)

subsection \<open>Session store\<close>

text \<open>
  C8: whatever the store held before, \<open>getActivationStatus\<close> after \<open>logoutUser\<close> is
  false; \<open>getActivationStatus\<close> only reads the store (it returns a boolean and no store),
  is false whenever no user is set, and answers on the store as it is before any login.
\<close>

theorem logout_then_activation_status:
  "getActivationStatus (logoutUser st) = False
   \<and> (user st = None \<longrightarrow> getActivationStatus st = False)
   \<and> getActivationStatus emptyStore = False"
  by (simp add: getActivationStatus_def logoutUser_def emptyStore_def)

text \<open>A store with an activated user, logged out; and a store with no user.\<close>

theorem logout_then_activation_status_witness:
  "getActivationStatus
     (logoutUser \<lparr>user = Some \<lparr>userId = ''u1'', userEmail = ''bob@example.com'', isActivated = True\<rparr>,
                  accessToken = Some ''abc123''\<rparr>) = False
   \<and> user (logoutUser emptyStore) = None
   \<and> getActivationStatus (logoutUser emptyStore) = False"
  using logout_then_activation_status
    [of "\<lparr>user = Some \<lparr>userId = ''u1'', userEmail = ''bob@example.com'', isActivated = True\<rparr>,
                  accessToken = Some ''abc123''\<rparr>"]
    logout_then_activation_status [of "logoutUser emptyStore"]
  by (simp add: logoutUser_def emptyStore_def)

subsection \<open>Login validation\<close>

text \<open>
  C1: for every pair of raw field values, the login validation returns null or exactly one
  of the four messages, the one of the first rule violated in the order: email missing or
  empty, email shape, password missing or empty, password shorter than 6. In particular,
  for an email that is present, not empty and fails the shape check, and a password
  shorter than 6, the email-shape message is returned, not the password-length message.
\<close>

theorem getLoginFormErrors_priority:
  "getLoginFormErrors email password
     \<in> {None, Some ''Email is required.'', Some ''Enter a valid email address.'',
        Some ''Password is required.'', Some ''Password must be at least 6 characters.''}
   \<and> (getLoginFormErrors email password = Some ''Email is required.''
        \<longleftrightarrow> email = None \<or> email = Some [])
   \<and> (getLoginFormErrors email password = Some ''Enter a valid email address.''
        \<longleftrightarrow> (\<exists>e. email = Some e \<and> e \<noteq> [] \<and> \<not> emailShape e))
   \<and> (getLoginFormErrors email password = Some ''Password is required.''
        \<longleftrightarrow> (\<exists>e. email = Some e \<and> e \<noteq> [] \<and> emailShape e)
            \<and> (password = None \<or> password = Some []))
   \<and> (getLoginFormErrors email password = Some ''Password must be at least 6 characters.''
        \<longleftrightarrow> (\<exists>e. email = Some e \<and> e \<noteq> [] \<and> emailShape e)
            \<and> (\<exists>p. password = Some p \<and> p \<noteq> [] \<and> length p < 6))
   \<and> (getLoginFormErrors email password = None
        \<longleftrightarrow> (\<exists>e. email = Some e \<and> e \<noteq> [] \<and> emailShape e)
            \<and> (\<exists>p. password = Some p \<and> 6 \<le> length p))
   \<and> (\<forall>e p. email = Some e \<and> e \<noteq> [] \<and> \<not> emailShape e \<and> password = Some p \<and> length p < 6
        \<longrightarrow> getLoginFormErrors email password = Some ''Enter a valid email address.''
            \<and> getLoginFormErrors email password \<noteq> Some ''Password must be at least 6 characters.'')"
  by (cases email; cases password) (auto simp add: getLoginFormErrors_def)

text \<open>The scenario of the specification: \<^verbatim>\<open>bob@example\<close> with the password \<^verbatim>\<open>abc\<close>.\<close>

theorem getLoginFormErrors_priority_witness:
  "\<not> emailShape ''bob@example''
   \<and> getLoginFormErrors (Some ''bob@example'') (Some ''abc'') = Some ''Enter a valid email address.''
   \<and> getLoginFormErrors (Some ''bob@example'') (Some ''abc'')
       \<noteq> Some ''Password must be at least 6 characters.''"
  using getLoginFormErrors_priority [of "Some ''bob@example''" "Some ''abc''"]
  by (simp add: emailShape_def)

subsection \<open>The login page\<close>

text \<open>
  After a change of an input the displayed error is the validator's answer on the form
  data as it stands after the change; the visibility toggle touches neither the two
  fields nor the error, so the agreement survives it.
\<close>

lemma onChange_error:
  "error (onChange validate name val h)
     = validate (formData (onChange validate name val h) ''email'')
                (formData (onChange validate name val h) ''password'')"
  by (auto simp add: onChange_def)

lemma setShowPassword_other:
  "k \<noteq> name \<Longrightarrow> formData (setShowPassword name h) k = formData h k"
  by (simp add: setShowPassword_def)

lemma setShowPassword_error: "error (setShowPassword name h) = error h"
  by (simp add: setShowPassword_def)

lemma run_snoc: "run validate h (evs @ [ev]) = handle validate (run validate h evs) ev"
  by (simp add: run_def)

lemma run_error:
  "\<exists>name val. Change name val \<in> set evs \<Longrightarrow>
   error (run validate h evs)
     = validate (formData (run validate h evs) ''email'') (formData (run validate h evs) ''password'')"
proof (induction evs rule: rev_induct)
  case Nil
  then show ?case by simp
next
  case (snoc ev evs)
  show ?case
  proof (cases ev)
    case (Change name val)
    then show ?thesis by (simp add: run_snoc onChange_error)
  next
    case ToggleVisibility
    with snoc.prems have "\<exists>name val. Change name val \<in> set evs" by auto
    from snoc.IH [OF this] ToggleVisibility show ?thesis
      by (simp add: run_snoc setShowPassword_other setShowPassword_error)
  qed
qed

lemma onSubmit_passes:
  "validate (formData (home w) ''email'') (formData (home w) ''password'') = None \<Longrightarrow>
   requests (onSubmit validate login w) = requests w @ [formData (home w)]"
  by (simp add: onSubmit_def Let_def split: sum.splits)

lemma onSubmit_blocked:
  "validate (formData (home w) ''email'') (formData (home w) ''password'') = Some msg \<Longrightarrow>
   msg \<noteq> [] \<Longrightarrow>
   onSubmit validate login w = w\<lparr>toasts := toasts w @ [ToastError msg]\<rparr>"
  by (simp add: onSubmit_def Let_def)

text \<open>
  C2, as the specification words it: for every form state, a form that shows no inline
  error is not turned away at submit time. The error state starts at null and nothing
  validates before the first field change, so the pristine form shows no error, and so
  does the form after a click on the visibility icon alone; the validation at submit time
  answers "Email is required." on both, and a submission of the pristine form raises this
  message and hands nothing to the collaborator.
\<close>

theorem pristine_form_rejected_at_submit:
  "error initialHome = None
   \<and> loginValidator (formData initialHome ''email'') (formData initialHome ''password'')
       = Some ''Email is required.''
   \<and> onSubmit loginValidator (\<lambda>fd. Inr () :: string + unit)
        \<lparr>home = initialHome, toasts = [], routes = [], requests = [], store = emptyStore\<rparr>
       = \<lparr>home = initialHome, toasts = [ToastError ''Email is required.''], routes = [],
          requests = [], store = emptyStore\<rparr>
   \<and> error (run loginValidator initialHome [ToggleVisibility]) = None
   \<and> loginValidator (formData (run loginValidator initialHome [ToggleVisibility]) ''email'')
                     (formData (run loginValidator initialHome [ToggleVisibility]) ''password'')
       = Some ''Email is required.''"
  by (simp add: onSubmit_def run_def setShowPassword_def initialHome_def loginValidator_def
      getLoginFormErrors_def)

text \<open>
  C2, amended: the validation on a field change and the validation at submit time apply
  the same rules to the same field values. For every form state reached by events of which
  at least one is a field change, the displayed error is what the validation at submit
  time computes on that state. So when the displayed error is null, that validation is
  null as well and a submission is not turned away: the payload reaches the collaborator;
  and when a message is displayed, a submission is turned away with this very message and
  with nothing else, the collaborator not being invoked. This holds for every validator.
\<close>

theorem inline_error_agrees_with_submit_gate:
  assumes "\<exists>name val. Change name val \<in> set evs"
  shows "error (run validate h evs)
           = validate (formData (run validate h evs) ''email'')
                      (formData (run validate h evs) ''password'')
         \<and> (error (run validate h evs) = None \<longrightarrow>
              validate (formData (run validate h evs) ''email'')
                       (formData (run validate h evs) ''password'') = None
            \<and> requests (onSubmit validate login (w\<lparr>home := run validate h evs\<rparr>))
                = requests w @ [formData (run validate h evs)])
         \<and> (\<forall>msg. error (run validate h evs) = Some msg \<and> msg \<noteq> [] \<longrightarrow>
              toasts (onSubmit validate login (w\<lparr>home := run validate h evs\<rparr>))
                = toasts w @ [ToastError msg]
            \<and> requests (onSubmit validate login (w\<lparr>home := run validate h evs\<rparr>))
                = requests w)"
proof -
  let ?h = "run validate h evs"
  have agree: "error ?h = validate (formData ?h ''email'') (formData ?h ''password'')"
    by (rule run_error [OF assms])
  have pass: "error ?h = None \<longrightarrow>
      validate (formData ?h ''email'') (formData ?h ''password'') = None
    \<and> requests (onSubmit validate login (w\<lparr>home := ?h\<rparr>)) = requests w @ [formData ?h]"
    using agree by (simp add: onSubmit_passes)
  have block: "\<forall>msg. error ?h = Some msg \<and> msg \<noteq> [] \<longrightarrow>
      toasts (onSubmit validate login (w\<lparr>home := ?h\<rparr>)) = toasts w @ [ToastError msg]
    \<and> requests (onSubmit validate login (w\<lparr>home := ?h\<rparr>)) = requests w"
  proof (intro allI impI)
    fix msg
    assume m: "error ?h = Some msg \<and> msg \<noteq> []"
    with agree have
      "validate (formData (home (w\<lparr>home := ?h\<rparr>)) ''email'')
                (formData (home (w\<lparr>home := ?h\<rparr>)) ''password'') = Some msg"
      by simp
    from onSubmit_blocked [where validate = validate and login = login, OF this] m
    show "toasts (onSubmit validate login (w\<lparr>home := ?h\<rparr>)) = toasts w @ [ToastError msg]
        \<and> requests (onSubmit validate login (w\<lparr>home := ?h\<rparr>)) = requests w"
      by simp
  qed
  from agree pass block show ?thesis by blast
qed

text \<open>
  From the pristine form, with the validator of the page: a valid email, a valid password
  and a click on the visibility icon, where no error is displayed and the payload reaches
  the collaborator; and the email \<^verbatim>\<open>bob@example\<close> alone, where the email-shape message
  is displayed and a submission raises this message.
\<close>

theorem inline_error_agrees_with_submit_gate_witness:
  "error (run loginValidator initialHome
            [Change ''email'' ''bob@example.com'', Change ''password'' ''abcdef'', ToggleVisibility]) = None
   \<and> requests
        (onSubmit loginValidator (\<lambda>fd. Inr () :: string + unit)
           \<lparr>home = run loginValidator initialHome
                     [Change ''email'' ''bob@example.com'', Change ''password'' ''abcdef'',
                      ToggleVisibility],
            toasts = [], routes = [], requests = [], store = emptyStore\<rparr>)
       = [formData (run loginValidator initialHome
            [Change ''email'' ''bob@example.com'', Change ''password'' ''abcdef'', ToggleVisibility])]
   \<and> error (run loginValidator initialHome [Change ''email'' ''bob@example''])
       = Some ''Enter a valid email address.''
   \<and> toasts
        (onSubmit loginValidator (\<lambda>fd. Inr () :: string + unit)
           \<lparr>home = run loginValidator initialHome [Change ''email'' ''bob@example''],
            toasts = [], routes = [], requests = [], store = emptyStore\<rparr>)
       = [ToastError ''Enter a valid email address.'']
   \<and> requests
        (onSubmit loginValidator (\<lambda>fd. Inr () :: string + unit)
           \<lparr>home = run loginValidator initialHome [Change ''email'' ''bob@example''],
            toasts = [], routes = [], requests = [], store = emptyStore\<rparr>)
       = []"
proof -
  let ?evs = "[Change ''email'' ''bob@example.com'', Change ''password'' ''abcdef'', ToggleVisibility]"
  let ?bad = "[Change ''email'' ''bob@example'']"
  let ?login = "\<lambda>fd :: string \<rightharpoonup> jsval. Inr () :: string + unit"
  let ?w = "\<lparr>home = initialHome, toasts = [], routes = [], requests = [], store = emptyStore\<rparr>"
  have c: "\<exists>name val. Change name val \<in> set ?evs"
    by auto
  have e: "error (run loginValidator initialHome ?evs) = None"
    by (simp add: run_def onChange_def setShowPassword_def initialHome_def loginValidator_def
        getLoginFormErrors_def emailShape_def)
  have c': "\<exists>name val. Change name val \<in> set ?bad"
    by auto
  have e': "error (run loginValidator initialHome ?bad) = Some ''Enter a valid email address.''"
    by (simp add: run_def onChange_def initialHome_def loginValidator_def
        getLoginFormErrors_def emailShape_def)
  from inline_error_agrees_with_submit_gate [OF c, of loginValidator initialHome ?login ?w] e
  have good:
    "requests (onSubmit loginValidator ?login (?w\<lparr>home := run loginValidator initialHome ?evs\<rparr>))
       = requests ?w @ [formData (run loginValidator initialHome ?evs)]"
    by blast
  from inline_error_agrees_with_submit_gate [OF c', of loginValidator initialHome ?login ?w] e'
  have bad:
    "toasts (onSubmit loginValidator ?login (?w\<lparr>home := run loginValidator initialHome ?bad\<rparr>))
       = toasts ?w @ [ToastError ''Enter a valid email address.'']
     \<and> requests (onSubmit loginValidator ?login (?w\<lparr>home := run loginValidator initialHome ?bad\<rparr>))
       = requests ?w"
    by simp
  from e e' good bad show ?thesis by simp
qed

lemma loginValidator_message: "loginValidator e p = Some msg \<Longrightarrow> msg \<noteq> []"
  unfolding loginValidator_def getLoginFormErrors_def
  by (auto split: option.splits if_splits)

text \<open>
  C3: when the validation at the submission gate returns an error, a submit raises one
  error notification that carries this error, the submission collaborator is not invoked
  (no payload is handed to \<open>login\<close>), nothing is pushed to the router, and the form
  keeps its state: the page stays in editing.
\<close>

theorem invalid_submit_blocked:
  assumes "loginValidator (formData (home w) ''email'') (formData (home w) ''password'') = Some msg"
  shows "toasts (onSubmit loginValidator login w) = toasts w @ [ToastError msg]
         \<and> requests (onSubmit loginValidator login w) = requests w
         \<and> routes (onSubmit loginValidator login w) = routes w
         \<and> home (onSubmit loginValidator login w) = home w
         \<and> store (onSubmit loginValidator login w) = store w"
  using assms loginValidator_message [OF assms]
  by (simp add: onSubmit_blocked)

text \<open>The form of the specification's scenario, submitted as it is.\<close>

theorem invalid_submit_blocked_witness:
  "toasts
     (onSubmit loginValidator (\<lambda>fd. Inr () :: string + unit)
        \<lparr>home = \<lparr>formData = [''email'' \<mapsto> JString ''bob@example'', ''password'' \<mapsto> JString ''abc''],
                 error = Some ''Enter a valid email address.''\<rparr>,
         toasts = [], routes = [], requests = [], store = emptyStore\<rparr>)
     = [ToastError ''Enter a valid email address.'']
   \<and> requests
     (onSubmit loginValidator (\<lambda>fd. Inr () :: string + unit)
        \<lparr>home = \<lparr>formData = [''email'' \<mapsto> JString ''bob@example'', ''password'' \<mapsto> JString ''abc''],
                 error = Some ''Enter a valid email address.''\<rparr>,
         toasts = [], routes = [], requests = [], store = emptyStore\<rparr>)
     = []
   \<and> routes
     (onSubmit loginValidator (\<lambda>fd. Inr () :: string + unit)
        \<lparr>home = \<lparr>formData = [''email'' \<mapsto> JString ''bob@example'', ''password'' \<mapsto> JString ''abc''],
                 error = Some ''Enter a valid email address.''\<rparr>,
         toasts = [], routes = [], requests = [], store = emptyStore\<rparr>)
     = []"
proof -
  let ?w = "\<lparr>home = \<lparr>formData = [''email'' \<mapsto> JString ''bob@example'', ''password'' \<mapsto> JString ''abc''],
                 error = Some ''Enter a valid email address.''\<rparr>,
         toasts = [], routes = [], requests = [], store = emptyStore\<rparr>"
  have v: "loginValidator (formData (home ?w) ''email'') (formData (home ?w) ''password'')
             = Some ''Enter a valid email address.''"
    by (simp add: loginValidator_def getLoginFormErrors_def emailShape_def)
  from invalid_submit_blocked [OF v, of "\<lambda>fd. Inr () :: string + unit"]
  show ?thesis by simp
qed

text \<open>
  C4: when a submission passes the gate and the collaborator rejects, whatever its error,
  exactly one notification is raised, the error "Invalid credentials." (the collaborator's
  own error is not shown); the form keeps its state and nothing is pushed to the router:
  the page is back in editing; and the session store is unchanged.
\<close>

theorem rejected_login_generic_error:
  assumes "validate (formData (home w) ''email'') (formData (home w) ''password'') = None"
      and "login (formData (home w)) = Inl err"
  shows "toasts (onSubmit validate login w) = toasts w @ [ToastError ''Invalid credentials.'']
         \<and> requests (onSubmit validate login w) = requests w @ [formData (home w)]
         \<and> routes (onSubmit validate login w) = routes w
         \<and> home (onSubmit validate login w) = home w
         \<and> store (onSubmit validate login w) = store w"
  using assms by (simp add: onSubmit_def Let_def)

text \<open>A valid form and a collaborator that rejects with its own error text.\<close>

theorem rejected_login_generic_error_witness:
  "toasts
     (onSubmit loginValidator (\<lambda>fd. Inl ''Request failed with status code 401'' :: string + unit)
        \<lparr>home = \<lparr>formData = [''email'' \<mapsto> JString ''bob@example.com'', ''password'' \<mapsto> JString ''abcdef''],
                 error = None\<rparr>,
         toasts = [], routes = [], requests = [], store = emptyStore\<rparr>)
     = [ToastError ''Invalid credentials.'']
   \<and> routes
     (onSubmit loginValidator (\<lambda>fd. Inl ''Request failed with status code 401'' :: string + unit)
        \<lparr>home = \<lparr>formData = [''email'' \<mapsto> JString ''bob@example.com'', ''password'' \<mapsto> JString ''abcdef''],
                 error = None\<rparr>,
         toasts = [], routes = [], requests = [], store = emptyStore\<rparr>)
     = []
   \<and> store
     (onSubmit loginValidator (\<lambda>fd. Inl ''Request failed with status code 401'' :: string + unit)
        \<lparr>home = \<lparr>formData = [''email'' \<mapsto> JString ''bob@example.com'', ''password'' \<mapsto> JString ''abcdef''],
                 error = None\<rparr>,
         toasts = [], routes = [], requests = [], store = emptyStore\<rparr>)
     = emptyStore"
proof -
  let ?w = "\<lparr>home = \<lparr>formData = [''email'' \<mapsto> JString ''bob@example.com'', ''password'' \<mapsto> JString ''abcdef''],
                 error = None\<rparr>,
         toasts = [], routes = [], requests = [], store = emptyStore\<rparr>"
  let ?login = "\<lambda>fd :: string \<rightharpoonup> jsval. Inl ''Request failed with status code 401'' :: string + unit"
  have v: "loginValidator (formData (home ?w) ''email'') (formData (home ?w) ''password'') = None"
    by (simp add: loginValidator_def getLoginFormErrors_def emailShape_def)
  from rejected_login_generic_error
    [where validate = loginValidator and w = ?w and login = ?login
       and err = "''Request failed with status code 401''"] v
  show ?thesis by simp
qed

text \<open>
  C9: the visibility toggle flips the flag \<open>showPassword\<close> and nothing else: the email
  and the password, as every other field, keep their values, and the displayed error
  stays as it is; the function takes no validator, so no validation runs.
\<close>

theorem setShowPassword_frame:
  "formData (setShowPassword ''showPassword'' h) ''email'' = formData h ''email''
   \<and> formData (setShowPassword ''showPassword'' h) ''password'' = formData h ''password''
   \<and> error (setShowPassword ''showPassword'' h) = error h
   \<and> formData (setShowPassword ''showPassword'' h) ''showPassword''
       = Some (JBool (\<not> truthy (formData h ''showPassword'')))
   \<and> (\<forall>k. k \<noteq> ''showPassword'' \<longrightarrow> formData (setShowPassword ''showPassword'' h) k = formData h k)"
  by (simp add: setShowPassword_def)

text \<open>A form that shows the password-length error, toggled once.\<close>

theorem setShowPassword_frame_witness:
  "formData (setShowPassword ''showPassword''
      \<lparr>formData = [''email'' \<mapsto> JString ''bob@example.com'', ''password'' \<mapsto> JString ''abc''],
       error = Some ''Password must be at least 6 characters.''\<rparr>) ''email''
     = Some (JString ''bob@example.com'')
   \<and> formData (setShowPassword ''showPassword''
      \<lparr>formData = [''email'' \<mapsto> JString ''bob@example.com'', ''password'' \<mapsto> JString ''abc''],
       error = Some ''Password must be at least 6 characters.''\<rparr>) ''showPassword''
     = Some (JBool True)
   \<and> error (setShowPassword ''showPassword''
      \<lparr>formData = [''email'' \<mapsto> JString ''bob@example.com'', ''password'' \<mapsto> JString ''abc''],
       error = Some ''Password must be at least 6 characters.''\<rparr>)
     = Some ''Password must be at least 6 characters.''"
proof -
  let ?h = "\<lparr>formData = [''email'' \<mapsto> JString ''bob@example.com'', ''password'' \<mapsto> JString ''abc''],
       error = Some ''Password must be at least 6 characters.''\<rparr>"
  have k: "''email'' \<noteq> ''showPassword''"
    by simp
  from setShowPassword_frame [of ?h]
  have f: "\<forall>k. k \<noteq> ''showPassword'' \<longrightarrow> formData (setShowPassword ''showPassword'' ?h) k = formData ?h k"
    and s: "formData (setShowPassword ''showPassword'' ?h) ''showPassword''
              = Some (JBool (\<not> truthy (formData ?h ''showPassword'')))"
    and e: "error (setShowPassword ''showPassword'' ?h) = error ?h"
    by blast+
  from f [rule_format, OF k] s e show ?thesis by simp
qed

end
